theory Spec2Isabelle
  imports Main "HOL-Library.AList"
begin

section \<open>The relay server of Remote-Monitor (src/server/index.js)\<close>

text \<open>
  The server keeps three JavaScript \<open>Map\<close>s and reacts to HTTP requests, to socket.io
  events and to a 30-second timer. A \<open>Map\<close> iterates in insertion order, \<open>set\<close> on
  a present key keeps the key's position and \<open>set\<close> on an absent key appends: this is
  an association list with \<open>AList.update\<close>, \<open>AList.delete\<close> and \<open>map_of\<close>.
  A \<open>Date\<close> is its number of milliseconds, an \<open>int\<close>; every handler reads the clock
  once (\<open>now\<close>). Values that may be \<open>undefined\<close> are options.
\<close>

subsection \<open>Data\<close>

text \<open>The object stored in \<open>connectedComputers\<close> (lines 116-123).\<close>

record computerInfo =
  ci_id :: string
  ci_name :: "string option"
  ci_ip :: string
  ci_lastSeen :: int
  ci_capabilities :: "(string \<times> bool) list"
  ci_connectionCode :: "string option"

datatype status = Online | Offline

text \<open>
  The object stored in \<open>registeredComputers\<close> (lines 73-79). No handler ever gives it an
  \<open>ip\<close> field.
\<close>

record registered =
  r_id :: string
  r_name :: string
  r_status :: status
  r_lastSeen :: int
  r_connectionCode :: string

record server =
  connectedComputers :: "(string \<times> computerInfo) list"
  registeredComputers :: "(string \<times> registered) list"
  connectionCodes :: "(string \<times> string) list"

record socket =
  sock_id :: string
  handshake_address :: string

text \<open>
  The argument of an event, or the body of a request: an object of which the handlers read
  these fields, each of them possibly absent.
\<close>

record data =
  d_name :: "string option"
  d_capabilities :: "(string \<times> bool) list option"
  d_connectionCode :: "string option"
  d_viewerId :: "string option"
  d_frame :: "string option"
  d_timestamp :: "int option"
  d_frameNumber :: "int option"
  d_computerId :: "string option"

definition no_fields :: data where
  "no_fields = \<lparr>d_name = None, d_capabilities = None, d_connectionCode = None,
     d_viewerId = None, d_frame = None, d_timestamp = None, d_frameNumber = None,
     d_computerId = None\<rparr>"

text \<open>JavaScript truthiness of a string that may be absent: \<open>undefined\<close> and \<open>""\<close> are falsy.\<close>

definition truthy :: "string option \<Rightarrow> bool" where
  "truthy x = (case x of None \<Rightarrow> False | Some s \<Rightarrow> s \<noteq> [])"

text \<open>
  What the server sends. \<open>io.emit\<close> addresses every connected socket, \<open>socket.emit\<close> the
  socket of the handler, \<open>io.to(room).emit\<close> a room.
\<close>

datatype target = Everyone | ToSocket string | ToRoom "string option"

datatype payload =
    NoArgs
  | ComputerId string
  | Message string
  | FrameData "string option" string "int option" "int option"
  | FrameOnly "string option" string
  | ViewerId string
  | ComputerName "string option"

type_synonym message = "target \<times> string \<times> payload"

text \<open>The entries of \<open>GET /api/computers\<close> (lines 35-41 and 48-54).\<close>

record entry =
  e_id :: string
  e_name :: "string option"
  e_ip :: string
  e_status :: status
  e_lastSeen :: int

record response =
  res_status :: nat
  res_message :: string
  res_id :: "string option"

datatype error = TypeError

subsection \<open>HTTP routes\<close>

text \<open>
  \<open>GET /api/computers\<close>, lines 29-59. The second loop tests the key of
  \<open>registeredComputers\<close> against the keys of \<open>connectedComputers\<close>;
  \<open>computer.ip || 'unknown'\<close> is \<open>'unknown'\<close>, a registered object having no \<open>ip\<close>.
\<close>

definition get_computers :: "server \<Rightarrow> entry list" where
  "get_computers st =
     map (\<lambda>(key, computer).
            \<lparr>e_id = ci_id computer, e_name = ci_name computer, e_ip = ci_ip computer,
             e_status = Online, e_lastSeen = ci_lastSeen computer\<rparr>)
         (connectedComputers st)
     @ map (\<lambda>(key, computer).
            \<lparr>e_id = r_id computer, e_name = Some (r_name computer), e_ip = ''unknown'',
             e_status = Offline, e_lastSeen = r_lastSeen computer\<rparr>)
         (filter (\<lambda>(key, computer). map_of (connectedComputers st) key = None)
            (registeredComputers st))"

text \<open>
  \<open>POST /api/computers/register\<close>, lines 62-93. \<open>computerId\<close> is the value of the
  template of line 70, built from the clock and \<open>Math.random()\<close>.
\<close>

definition post_register ::
  "data \<Rightarrow> int \<Rightarrow> string \<Rightarrow> server \<Rightarrow> server \<times> response \<times> message list" where
  "post_register body now computerId st =
     (case (d_name body, d_connectionCode body) of
        (Some name, Some connectionCode) \<Rightarrow>
          if name = [] \<or> connectionCode = [] then
            (st, \<lparr>res_status = 400,
                  res_message = ''Computer name and connection code are required'',
                  res_id = None\<rparr>, [])
          else
            (st\<lparr>registeredComputers :=
                  AList.update computerId
                    \<lparr>r_id = computerId, r_name = name, r_status = Offline,
                     r_lastSeen = now, r_connectionCode = connectionCode\<rparr>
                    (registeredComputers st),
                connectionCodes :=
                  AList.update connectionCode computerId (connectionCodes st)\<rparr>,
             \<lparr>res_status = 201, res_message = ''Computer registered successfully'',
              res_id = Some computerId\<rparr>,
             [(Everyone, ''computers-updated'', NoArgs)])
      | _ \<Rightarrow>
          (st, \<lparr>res_status = 400,
                res_message = ''Computer name and connection code are required'',
                res_id = None\<rparr>, []))"

subsection \<open>Socket handlers\<close>

text \<open>Lines 102-114: the identity and the name a registering socket gets.\<close>

definition reconcile :: "socket \<Rightarrow> data \<Rightarrow> server \<Rightarrow> string \<times> string option" where
  "reconcile sock d st =
     (case d_connectionCode d of
        None \<Rightarrow> (sock_id sock, d_name d)
      | Some code \<Rightarrow>
          if code = [] then (sock_id sock, d_name d)
          else
            (case map_of (connectionCodes st) code of
               None \<Rightarrow> (sock_id sock, d_name d)
             | Some registeredId \<Rightarrow>
                 (case map_of (registeredComputers st) registeredId of
                    None \<Rightarrow> (sock_id sock, d_name d)
                  | Some registered \<Rightarrow> (registeredId, Some (r_name registered)))))"

text \<open>
  \<open>register-computer\<close>, lines 101-140. Returns the state, the object assigned to the
  connection's variable \<open>computerInfo\<close>, and the messages.
\<close>

definition register_computer ::
  "socket \<Rightarrow> int \<Rightarrow> data \<Rightarrow> server \<Rightarrow> server \<times> computerInfo \<times> message list" where
  "register_computer sock now d st =
     (let (ident, name) = reconcile sock d st;
          info = \<lparr>ci_id = ident, ci_name = name, ci_ip = handshake_address sock,
                  ci_lastSeen = now,
                  ci_capabilities = (case d_capabilities d of None \<Rightarrow> [] | Some c \<Rightarrow> c),
                  ci_connectionCode = d_connectionCode d\<rparr>;
          st1 = st\<lparr>connectedComputers :=
                     AList.update (sock_id sock) info (connectedComputers st)\<rparr>;
          st2 = (case map_of (registeredComputers st1) ident of
                   None \<Rightarrow> st1
                 | Some r \<Rightarrow>
                     st1\<lparr>registeredComputers :=
                           AList.update ident (r\<lparr>r_status := Online, r_lastSeen := now\<rparr>)
                             (registeredComputers st1)\<rparr>)
      in (st2, info, [(Everyone, ''computers-updated'', NoArgs)]))"

text \<open>\<open>pair-computer\<close>, lines 143-150.\<close>

definition pair_computer :: "socket \<Rightarrow> data \<Rightarrow> server \<Rightarrow> message list" where
  "pair_computer sock d st =
     (case d_connectionCode d of
        None \<Rightarrow> [(ToSocket (sock_id sock), ''pair-error'', Message ''Invalid connection code'')]
      | Some code \<Rightarrow>
          if code = [] then
            [(ToSocket (sock_id sock), ''pair-error'', Message ''Invalid connection code'')]
          else
            (case map_of (connectionCodes st) code of
               None \<Rightarrow>
                 [(ToSocket (sock_id sock), ''pair-error'',
                   Message ''Invalid connection code'')]
             | Some computerId \<Rightarrow>
                 [(ToSocket (sock_id sock), ''computer-paired'', ComputerId computerId)]))"

text \<open>Lines 176-187: the sender's live record, and its durable one, get \<open>lastSeen = now\<close>.\<close>

definition touch :: "socket \<Rightarrow> int \<Rightarrow> server \<Rightarrow> server" where
  "touch sock now st =
     (case map_of (connectedComputers st) (sock_id sock) of
        None \<Rightarrow> st
      | Some info \<Rightarrow>
          (let st1 = st\<lparr>connectedComputers :=
                          AList.update (sock_id sock) (info\<lparr>ci_lastSeen := now\<rparr>)
                            (connectedComputers st)\<rparr>
           in case map_of (registeredComputers st1) (ci_id info) of
                None \<Rightarrow> st1
              | Some r \<Rightarrow>
                  st1\<lparr>registeredComputers :=
                        AList.update (ci_id info) (r\<lparr>r_lastSeen := now\<rparr>)
                          (registeredComputers st1)\<rparr>))"

text \<open>\<open>webcam-frame\<close>, lines 153-188.\<close>

definition webcam_frame :: "socket \<Rightarrow> int \<Rightarrow> data \<Rightarrow> server \<Rightarrow> server \<times> message list" where
  "webcam_frame sock now d st =
     (touch sock now st,
      [(ToRoom (d_viewerId d), ''webcam-frame'',
        FrameData (d_frame d) (sock_id sock) (d_timestamp d) (d_frameNumber d)),
       (ToRoom (d_viewerId d), ''frame'',
        FrameData (d_frame d) (sock_id sock) (d_timestamp d) (d_frameNumber d))])"

text \<open>\<open>frame\<close>, lines 190-206.\<close>

definition frame_alt :: "socket \<Rightarrow> data \<Rightarrow> message list" where
  "frame_alt sock d =
     [(ToRoom (d_viewerId d), ''frame'', FrameOnly (d_frame d) (sock_id sock)),
      (ToRoom (d_viewerId d), ''webcam-frame'', FrameOnly (d_frame d) (sock_id sock))]"

text \<open>\<open>request-stream\<close>, lines 209-227.\<close>

definition request_stream :: "socket \<Rightarrow> data \<Rightarrow> server \<Rightarrow> message list" where
  "request_stream sock d st =
     (case d_computerId d of
        None \<Rightarrow> [(ToSocket (sock_id sock), ''stream-error'', Message ''Computer is not connected'')]
      | Some computerId \<Rightarrow>
          (case map_of (connectedComputers st) computerId of
             None \<Rightarrow>
               [(ToSocket (sock_id sock), ''stream-error'',
                 Message ''Computer is not connected'')]
           | Some targetComputer \<Rightarrow>
               [(ToRoom (Some computerId), ''start-stream'', ViewerId (sock_id sock)),
                (ToSocket (sock_id sock), ''stream-ready'',
                 ComputerName (ci_name targetComputer))]))"

text \<open>\<open>stop-stream\<close>, lines 230-237.\<close>

definition stop_stream :: "socket \<Rightarrow> data \<Rightarrow> message list" where
  "stop_stream sock d =
     (if truthy (d_computerId d)
      then [(ToRoom (d_computerId d), ''stop-stream'', ViewerId (sock_id sock))]
      else [])"

text \<open>Lines 246-251 and 269-274: the durable record of an identity goes offline.\<close>

definition mark_offline :: "string \<Rightarrow> int \<Rightarrow> server \<Rightarrow> server" where
  "mark_offline ident now st =
     (case map_of (registeredComputers st) ident of
        None \<Rightarrow> st
      | Some r \<Rightarrow>
          st\<lparr>registeredComputers :=
               AList.update ident (r\<lparr>r_status := Offline, r_lastSeen := now\<rparr>)
                 (registeredComputers st)\<rparr>)"

text \<open>\<open>disconnect\<close>, lines 240-256; \<open>info\<close> is the connection's variable \<open>computerInfo\<close>.\<close>

definition disconnect ::
  "socket \<Rightarrow> int \<Rightarrow> computerInfo option \<Rightarrow> server \<Rightarrow> server \<times> message list" where
  "disconnect sock now info st =
     (case info of
        None \<Rightarrow> (st, [])
      | Some computerInfo \<Rightarrow>
          (mark_offline (ci_id computerInfo) now
             (st\<lparr>connectedComputers := AList.delete (sock_id sock) (connectedComputers st)\<rparr>),
           [(Everyone, ''computers-updated'', NoArgs)]))"

text \<open>
  The listeners of one connection, lines 96-257, dispatched on the event's name. The state
  of a connection is its variable \<open>computerInfo\<close> (line 98) beside the server's maps. A
  handler that reads a field of \<open>data\<close> throws a \<open>TypeError\<close> when the event came with
  no argument; an event with no listener (\<open>heartbeat\<close>, \<open>stream-ack\<close>, ...) does nothing.
  In \<open>webcam-frame\<close> the object updated in the map is the one \<open>computerInfo\<close> refers to.
\<close>

definition on_event ::
  "socket \<Rightarrow> int \<Rightarrow> string \<Rightarrow> data option \<Rightarrow> computerInfo option \<times> server
     \<Rightarrow> error + ((computerInfo option \<times> server) \<times> message list)" where
  "on_event sock now name arg s =
     (let (info, st) = s in
      if name = ''register-computer'' then
        (case arg of None \<Rightarrow> Inl TypeError
         | Some d \<Rightarrow>
             (let (st', info', msgs) = register_computer sock now d st
              in Inr ((Some info', st'), msgs)))
      else if name = ''pair-computer'' then
        (case arg of None \<Rightarrow> Inl TypeError
         | Some d \<Rightarrow> Inr ((info, st), pair_computer sock d st))
      else if name = ''webcam-frame'' then
        (case arg of None \<Rightarrow> Inl TypeError
         | Some d \<Rightarrow>
             (let (st', msgs) = webcam_frame sock now d st
              in Inr ((case map_of (connectedComputers st') (sock_id sock) of
                         None \<Rightarrow> info | Some touched \<Rightarrow> Some touched, st'), msgs)))
      else if name = ''frame'' then
        (case arg of None \<Rightarrow> Inl TypeError
         | Some d \<Rightarrow> Inr ((info, st), frame_alt sock d))
      else if name = ''request-stream'' then
        (case arg of None \<Rightarrow> Inl TypeError
         | Some d \<Rightarrow> Inr ((info, st), request_stream sock d st))
      else if name = ''stop-stream'' then
        (case arg of None \<Rightarrow> Inl TypeError
         | Some d \<Rightarrow> Inr ((info, st), stop_stream sock d))
      else if name = ''disconnect'' then
        (let (st', msgs) = disconnect sock now info st in Inr ((info, st'), msgs))
      else Inr ((info, st), []))"

subsection \<open>The reaper\<close>

text \<open>
  The timer of lines 260-279. The loop walks the entries of \<open>connectedComputers\<close>; it
  deletes only the entry it is at and inserts none, so it visits the entries the map had
  when the loop began.
\<close>

fun reap :: "int \<Rightarrow> (string \<times> computerInfo) list \<Rightarrow> server \<Rightarrow> server \<times> message list" where
  "reap now [] st = (st, [])"
| "reap now ((key, computer) # rest) st =
     (if now - ci_lastSeen computer > 60000 then
        (let st1 = st\<lparr>connectedComputers := AList.delete key (connectedComputers st)\<rparr>;
             st2 = mark_offline (ci_id computer) now st1;
             (st3, msgs) = reap now rest st2
         in (st3, (Everyone, ''computers-updated'', NoArgs) # msgs))
      else reap now rest st)"

definition sweep :: "int \<Rightarrow> server \<Rightarrow> server \<times> message list" where
  "sweep now st = reap now (connectedComputers st) st"

subsection \<open>Delivery\<close>

text \<open>
  What a connected socket receives of a list of messages. In socket.io every socket is in
  the room named by its own id, and this server calls \<open>join\<close> nowhere: a room is a socket
  id, and a room of no connected socket reaches nobody.
\<close>

definition inbox :: "string list \<Rightarrow> string \<Rightarrow> message list \<Rightarrow> (string \<times> payload) list" where
  "inbox sockets v msgs =
     map snd
       (filter (\<lambda>(t, m). v \<in> set sockets \<and>
                  (case t of Everyone \<Rightarrow> True | ToSocket s \<Rightarrow> s = v | ToRoom r \<Rightarrow> r = Some v))
          msgs)"

definition emitted :: "error + ('s \<times> message list) \<Rightarrow> message list" where
  "emitted r = (case r of Inl e \<Rightarrow> [] | Inr (s, msgs) \<Rightarrow> msgs)"

definition empty_server :: server where
  "empty_server = \<lparr>connectedComputers = [], registeredComputers = [], connectionCodes = []\<rparr>"

subsection \<open>Shorthands and a scenario\<close>

text \<open>The test of line 264, and the update of lines 271-272, as the lemmas name them.\<close>

definition stale :: "int \<Rightarrow> computerInfo \<Rightarrow> bool" where
  "stale now computer = (now - ci_lastSeen computer > 60000)"

definition offline_at :: "int \<Rightarrow> registered \<Rightarrow> registered" where
  "offline_at now r = r\<lparr>r_status := Offline, r_lastSeen := now\<rparr>"

text \<open>
  The scenario of the specification: a computer is registered over HTTP as \<open>Lab-PC\<close>
  with the code \<open>ABC123\<close> at time 1000 and gets the id \<open>reg_1000_k3x9q2a\<close>; the
  socket \<open>sock-S\<close> registers with that code at time 2000; a second socket \<open>sock-T\<close>
  registers with the same code at time 3000; a third, \<open>sock-U\<close>, registers without a
  code at time 50000. \<open>sock-V\<close> is a viewer.
\<close>

definition sock_S :: socket where
  "sock_S = \<lparr>sock_id = ''sock-S'', handshake_address = ''10.0.0.5''\<rparr>"

definition sock_T :: socket where
  "sock_T = \<lparr>sock_id = ''sock-T'', handshake_address = ''10.0.0.6''\<rparr>"

definition sock_U :: socket where
  "sock_U = \<lparr>sock_id = ''sock-U'', handshake_address = ''10.0.0.7''\<rparr>"

definition sock_V :: socket where
  "sock_V = \<lparr>sock_id = ''sock-V'', handshake_address = ''10.0.0.9''\<rparr>"

definition lab_pc :: data where
  "lab_pc = no_fields\<lparr>d_name := Some ''Lab-PC'', d_connectionCode := Some ''ABC123''\<rparr>"

definition with_code :: data where
  "with_code = no_fields\<lparr>d_name := Some ''office'', d_connectionCode := Some ''ABC123''\<rparr>"

definition st_durable :: server where
  "st_durable = fst (post_register lab_pc 1000 ''reg_1000_k3x9q2a'' empty_server)"

definition st_live :: server where
  "st_live = fst (register_computer sock_S 2000 with_code st_durable)"

definition info_S :: computerInfo where
  "info_S = fst (snd (register_computer sock_S 2000 with_code st_durable))"

definition st_two :: server where
  "st_two = fst (register_computer sock_T 3000 with_code st_live)"

definition st_crowd :: server where
  "st_crowd =
     fst (register_computer sock_U 50000 (no_fields\<lparr>d_name := Some ''kiosk''\<rparr>) st_two)"

definition frame_1 :: data where
  "frame_1 = no_fields\<lparr>d_viewerId := Some ''sock-V'', d_frame := Some ''/9j/4AAQ'',
               d_timestamp := Some 4000, d_frameNumber := Some 1\<rparr>"

definition heartbeat :: data where
  "heartbeat = no_fields\<lparr>d_timestamp := Some 60000\<rparr>"

section \<open>Properties\<close>

subsection \<open>The states of the scenario\<close>

lemma st_durable_value:
  "st_durable =
     \<lparr>connectedComputers = [],
      registeredComputers =
        [(''reg_1000_k3x9q2a'',
          \<lparr>r_id = ''reg_1000_k3x9q2a'', r_name = ''Lab-PC'', r_status = Offline,
           r_lastSeen = 1000, r_connectionCode = ''ABC123''\<rparr>)],
      connectionCodes = [(''ABC123'', ''reg_1000_k3x9q2a'')]\<rparr>"
  by (simp add: st_durable_def lab_pc_def post_register_def no_fields_def empty_server_def)

lemma info_S_value:
  "info_S = \<lparr>ci_id = ''reg_1000_k3x9q2a'', ci_name = Some ''Lab-PC'', ci_ip = ''10.0.0.5'',
             ci_lastSeen = 2000, ci_capabilities = [], ci_connectionCode = Some ''ABC123''\<rparr>"
  by (simp add: info_S_def st_durable_value register_computer_def reconcile_def Let_def
      with_code_def no_fields_def sock_S_def)

lemma st_live_value:
  "st_live =
     \<lparr>connectedComputers = [(''sock-S'', info_S)],
      registeredComputers =
        [(''reg_1000_k3x9q2a'',
          \<lparr>r_id = ''reg_1000_k3x9q2a'', r_name = ''Lab-PC'', r_status = Online,
           r_lastSeen = 2000, r_connectionCode = ''ABC123''\<rparr>)],
      connectionCodes = [(''ABC123'', ''reg_1000_k3x9q2a'')]\<rparr>"
  by (simp add: st_live_def info_S_value st_durable_value register_computer_def reconcile_def
      Let_def with_code_def no_fields_def sock_S_def)

lemma st_two_value:
  "st_two =
     \<lparr>connectedComputers =
        [(''sock-S'', info_S),
         (''sock-T'', info_S\<lparr>ci_ip := ''10.0.0.6'', ci_lastSeen := 3000\<rparr>)],
      registeredComputers =
        [(''reg_1000_k3x9q2a'',
          \<lparr>r_id = ''reg_1000_k3x9q2a'', r_name = ''Lab-PC'', r_status = Online,
           r_lastSeen = 3000, r_connectionCode = ''ABC123''\<rparr>)],
      connectionCodes = [(''ABC123'', ''reg_1000_k3x9q2a'')]\<rparr>"
  by (simp add: st_two_def st_live_value info_S_value register_computer_def reconcile_def
      Let_def with_code_def no_fields_def sock_T_def)

lemma st_crowd_value:
  "st_crowd =
     \<lparr>connectedComputers =
        [(''sock-S'', info_S),
         (''sock-T'', info_S\<lparr>ci_ip := ''10.0.0.6'', ci_lastSeen := 3000\<rparr>),
         (''sock-U'',
          \<lparr>ci_id = ''sock-U'', ci_name = Some ''kiosk'', ci_ip = ''10.0.0.7'',
           ci_lastSeen = 50000, ci_capabilities = [], ci_connectionCode = None\<rparr>)],
      registeredComputers =
        [(''reg_1000_k3x9q2a'',
          \<lparr>r_id = ''reg_1000_k3x9q2a'', r_name = ''Lab-PC'', r_status = Online,
           r_lastSeen = 3000, r_connectionCode = ''ABC123''\<rparr>)],
      connectionCodes = [(''ABC123'', ''reg_1000_k3x9q2a'')]\<rparr>"
  by (simp add: st_crowd_def st_two_value info_S_value register_computer_def reconcile_def
      Let_def no_fields_def sock_U_def)

subsection \<open>The relay\<close>

lemma webcam_frame_emitted:
  "emitted (on_event sock now ''webcam-frame'' (Some d) s) =
     [(ToRoom (d_viewerId d), ''webcam-frame'',
       FrameData (d_frame d) (sock_id sock) (d_timestamp d) (d_frameNumber d)),
      (ToRoom (d_viewerId d), ''frame'',
       FrameData (d_frame d) (sock_id sock) (d_timestamp d) (d_frameNumber d))]"
  by (simp add: on_event_def webcam_frame_def emitted_def case_prod_unfold)

lemma webcam_frame_returns:
  "on_event sock now ''webcam-frame'' (Some d) s \<noteq> Inl TypeError"
  by (simp add: on_event_def webcam_frame_def case_prod_unfold)

lemma relay_inbox:
  assumes "d_viewerId d = Some v" and "v \<in> set sockets"
  shows "inbox sockets v (emitted (on_event sock now ''webcam-frame'' (Some d) s)) =
           [(''webcam-frame'',
             FrameData (d_frame d) (sock_id sock) (d_timestamp d) (d_frameNumber d)),
            (''frame'',
             FrameData (d_frame d) (sock_id sock) (d_timestamp d) (d_frameNumber d))]"
  using assms by (simp add: webcam_frame_emitted inbox_def)

lemma relay_inbox_unknown:
  assumes "d_viewerId d \<notin> Some ` set sockets"
  shows "inbox sockets w (emitted (on_event sock now ''webcam-frame'' (Some d) s)) = []"
  using assms by (auto simp add: webcam_frame_emitted inbox_def)

subsection \<open>The reaper's loop\<close>

lemma mark_offline_connected [simp]:
  "connectedComputers (mark_offline i now st) = connectedComputers st"
  by (simp add: mark_offline_def split: option.splits)

lemma mark_offline_codes [simp]:
  "connectionCodes (mark_offline i now st) = connectionCodes st"
  by (simp add: mark_offline_def split: option.splits)

lemma update_as_map:
  "distinct (map fst al) \<Longrightarrow> map_of al k = Some v \<Longrightarrow>
   AList.update k w al = map (\<lambda>(k', x). if k' = k then (k', w) else (k', x)) al"
proof (induction al)
  case Nil
  then show ?case by simp
next
  case (Cons p al)
  obtain k' x where p: "p = (k', x)" by (cases p)
  show ?case
  proof (cases "k' = k")
    case True
    with Cons.prems p have "k \<notin> fst ` set al" by auto
    then have "map (\<lambda>(k', x). if k' = k then (k', w) else (k', x)) al = al"
      by (induction al) auto
    with True p show ?thesis by simp
  next
    case False
    with Cons p show ?thesis by simp
  qed
qed

lemma mark_offline_registered:
  assumes "distinct (map fst (registeredComputers st))"
  shows "registeredComputers (mark_offline i now st) =
           map (\<lambda>(k, r). if k = i then (k, offline_at now r) else (k, r))
             (registeredComputers st)"
proof (cases "map_of (registeredComputers st) i")
  case None
  then have "i \<notin> fst ` set (registeredComputers st)"
    by (simp add: map_of_eq_None_iff)
  then have "map (\<lambda>(k, r). if k = i then (k, offline_at now r) else (k, r))
               (registeredComputers st) = registeredComputers st"
    by (intro map_idI) force
  with None show ?thesis by (simp add: mark_offline_def)
next
  case (Some r)
  have "AList.update i (offline_at now r) (registeredComputers st) =
          map (\<lambda>(k', x). if k' = i then (k', offline_at now r) else (k', x))
            (registeredComputers st)"
    using assms Some by (rule update_as_map)
  also have "\<dots> = map (\<lambda>(k, r). if k = i then (k, offline_at now r) else (k, r))
            (registeredComputers st)"
  proof (rule map_cong[OF refl])
    fix p assume "p \<in> set (registeredComputers st)"
    moreover obtain k x where p: "p = (k, x)" by (cases p)
    ultimately have "k = i \<Longrightarrow> x = r"
      using assms Some by (auto dest: map_of_SomeD eq_key_imp_eq_value)
    with p show "(case p of (k', x) \<Rightarrow> if k' = i then (k', offline_at now r) else (k', x)) =
                 (case p of (k, r) \<Rightarrow> if k = i then (k, offline_at now r) else (k, r))"
      by auto
  qed
  finally show ?thesis using Some by (simp add: mark_offline_def offline_at_def)
qed

lemma reap_connected:
  "connectedComputers (fst (reap now es st)) =
     filter (\<lambda>(k, c). k \<notin> fst ` set (filter (\<lambda>(k, c). stale now c) es))
       (connectedComputers st)"
proof (induction es arbitrary: st)
  case Nil
  then show ?case by simp
next
  case (Cons e es)
  obtain key computer where e: "e = (key, computer)" by (cases e)
  show ?case
  proof (cases "stale now computer")
    case True
    let ?st2 = "mark_offline (ci_id computer) now
                  (st\<lparr>connectedComputers := AList.delete key (connectedComputers st)\<rparr>)"
    have "connectedComputers (fst (reap now (e # es) st)) =
            connectedComputers (fst (reap now es ?st2))"
      using True e by (simp add: stale_def case_prod_unfold Let_def)
    also have "\<dots> = filter (\<lambda>(k, c). k \<notin> fst ` set (filter (\<lambda>(k, c). stale now c) es))
                        (AList.delete key (connectedComputers st))"
      using Cons.IH[of ?st2] by simp
    also have "\<dots> = filter (\<lambda>(k, c). k \<notin> fst ` set (filter (\<lambda>(k, c). stale now c) (e # es)))
                        (connectedComputers st)"
      using True e by (auto simp add: AList.delete_eq intro!: filter_cong)
    finally show ?thesis .
  next
    case False
    then show ?thesis using Cons.IH[of st] e by (simp add: stale_def)
  qed
qed

lemma reap_messages:
  "snd (reap now es st) =
     replicate (length (filter (\<lambda>(k, c). stale now c) es)) (Everyone, ''computers-updated'', NoArgs)"
  by (induction es arbitrary: st) (auto simp add: stale_def case_prod_unfold Let_def)

lemma reap_codes: "connectionCodes (fst (reap now es st)) = connectionCodes st"
  by (induction es arbitrary: st) (auto simp add: case_prod_unfold Let_def)

lemma offline_at_idem [simp]: "offline_at now (offline_at now r) = offline_at now r"
  by (simp add: offline_at_def)

lemma reap_registered:
  "distinct (map fst (registeredComputers st)) \<Longrightarrow>
   registeredComputers (fst (reap now es st)) =
     map (\<lambda>(k, r). if k \<in> ci_id ` snd ` set (filter (\<lambda>(k, c). stale now c) es)
                    then (k, offline_at now r) else (k, r))
       (registeredComputers st)"
proof (induction es arbitrary: st)
  case Nil
  then show ?case by simp
next
  case (Cons e es)
  obtain key computer where e: "e = (key, computer)" by (cases e)
  show ?case
  proof (cases "stale now computer")
    case True
    let ?st1 = "st\<lparr>connectedComputers := AList.delete key (connectedComputers st)\<rparr>"
    let ?st2 = "mark_offline (ci_id computer) now ?st1"
    have d1: "distinct (map fst (registeredComputers ?st1))" using Cons.prems by simp
    have r2: "registeredComputers ?st2 =
                map (\<lambda>(k, r). if k = ci_id computer then (k, offline_at now r) else (k, r))
                  (registeredComputers st)"
      using mark_offline_registered[OF d1] by simp
    have d2: "distinct (map fst (registeredComputers ?st2))"
      using Cons.prems by (simp add: r2 comp_def case_prod_unfold if_distrib[of fst] cong: if_cong)
    have "registeredComputers (fst (reap now (e # es) st)) =
            registeredComputers (fst (reap now es ?st2))"
      using True e by (simp add: stale_def split: prod.splits)
    also have "\<dots> = map (\<lambda>(k, r). if k \<in> ci_id ` snd ` set (filter (\<lambda>(k, c). stale now c) es)
                    then (k, offline_at now r) else (k, r)) (registeredComputers ?st2)"
      by (rule Cons.IH[OF d2])
    also have "\<dots> = map (\<lambda>(k, r). if k \<in> ci_id ` snd ` set (filter (\<lambda>(k, c). stale now c) (e # es))
                    then (k, offline_at now r) else (k, r)) (registeredComputers st)"
      using True e by (auto simp add: r2)
    finally show ?thesis .
  next
    case False
    then show ?thesis using Cons.IH[OF Cons.prems] e by (simp add: stale_def)
  qed
qed

lemma stale_keys_filter:
  assumes "distinct (map fst al)"
  shows "filter (\<lambda>(k, c). k \<notin> fst ` set (filter (\<lambda>(k, c). P c) al)) al =
         filter (\<lambda>(k, c). \<not> P c) al"
proof (rule filter_cong[OF refl])
  fix p assume pin: "p \<in> set al"
  obtain k c where p: "p = (k, c)" by (cases p)
  have "k \<in> fst ` set (filter (\<lambda>(k, c). P c) al) \<longleftrightarrow> P c"
  proof
    assume "k \<in> fst ` set (filter (\<lambda>(k, c). P c) al)"
    then obtain c' where "(k, c') \<in> set al" "P c'" by auto
    with assms pin p have "c' = c" by (auto dest: eq_key_imp_eq_value)
    with \<open>P c'\<close> show "P c" by simp
  next
    assume "P c"
    with pin p show "k \<in> fst ` set (filter (\<lambda>(k, c). P c) al)" by force
  qed
  with p show "(case p of (k, c) \<Rightarrow> k \<notin> fst ` set (filter (\<lambda>(k, c). P c) al)) =
               (case p of (k, c) \<Rightarrow> \<not> P c)" by simp
qed

subsection \<open>The claims\<close>

text \<open>
  C1. After the HTTP registration of \<open>Lab-PC\<close> with \<open>ABC123\<close> and the live registration
  of \<open>sock-S\<close> with that code, the viewer's \<open>pair-computer\<close> gets the durable id, and
  its \<open>request-stream\<close> with that id gets \<open>stream-error\<close>: \<open>connectedComputers\<close> is
  keyed by the socket id, not by the identity.
\<close>

theorem request_stream_by_durable_id_fails:
  "connectedComputers st_live = [(''sock-S'', info_S)]
   \<and> ci_id info_S = ''reg_1000_k3x9q2a''
   \<and> emitted (on_event sock_V 2500 ''pair-computer''
                (Some (no_fields\<lparr>d_connectionCode := Some ''ABC123''\<rparr>)) (None, st_live)) =
       [(ToSocket ''sock-V'', ''computer-paired'', ComputerId ''reg_1000_k3x9q2a'')]
   \<and> emitted (on_event sock_V 2600 ''request-stream''
                (Some (no_fields\<lparr>d_computerId := Some ''reg_1000_k3x9q2a''\<rparr>)) (None, st_live)) =
       [(ToSocket ''sock-V'', ''stream-error'', Message ''Computer is not connected'')]"
  by (simp add: on_event_def emitted_def pair_computer_def request_stream_def st_live_value
      info_S_value no_fields_def sock_V_def)

text \<open>
  C2. In the same state the listing holds the durable id twice, once online (the live
  record) and once offline (the durable record): the test of line 47 looks the durable id up
  among the socket ids.
\<close>

theorem get_computers_lists_durable_id_twice:
  "get_computers st_live =
     [\<lparr>e_id = ''reg_1000_k3x9q2a'', e_name = Some ''Lab-PC'', e_ip = ''10.0.0.5'',
       e_status = Online, e_lastSeen = 2000\<rparr>,
      \<lparr>e_id = ''reg_1000_k3x9q2a'', e_name = Some ''Lab-PC'', e_ip = ''unknown'',
       e_status = Offline, e_lastSeen = 2000\<rparr>]"
  by (simp add: get_computers_def st_live_value info_S_value)

text \<open>
  C3. When \<open>sock-T\<close> registers with the code \<open>sock-S\<close> registered with, both sockets stay
  in \<open>connectedComputers\<close> under the one durable identity: the earlier session is not
  replaced.
\<close>

theorem second_session_does_not_supersede:
  "connectedComputers st_two =
     [(''sock-S'', info_S),
      (''sock-T'', info_S\<lparr>ci_ip := ''10.0.0.6'', ci_lastSeen := 3000\<rparr>)]
   \<and> ci_id info_S = ''reg_1000_k3x9q2a''
   \<and> ci_id (info_S\<lparr>ci_ip := ''10.0.0.6'', ci_lastSeen := 3000\<rparr>) = ''reg_1000_k3x9q2a''"
  by (simp add: st_two_value info_S_value)

text \<open>
  C4, as stated, fails: \<open>ABC123\<close> is bound to \<open>reg_1000_k3x9q2a\<close>, a second registration
  with that code is answered 201, and the code is bound to the new id.
\<close>

theorem post_register_duplicate_code_accepted:
  "map_of (connectionCodes st_durable) ''ABC123'' = Some ''reg_1000_k3x9q2a''
   \<and> res_status (fst (snd (post_register (lab_pc\<lparr>d_name := Some ''Other-PC''\<rparr>) 5000
                              ''reg_5000_p0o9i8u'' st_durable))) = 201
   \<and> map_of (connectionCodes (fst (post_register (lab_pc\<lparr>d_name := Some ''Other-PC''\<rparr>) 5000
                                     ''reg_5000_p0o9i8u'' st_durable))) ''ABC123'' =
       Some ''reg_5000_p0o9i8u''
   \<and> fst (post_register (lab_pc\<lparr>d_name := Some ''Other-PC''\<rparr>) 5000 ''reg_5000_p0o9i8u''
            st_durable) \<noteq> st_durable"
  by (simp add: st_durable_value post_register_def lab_pc_def no_fields_def)

text \<open>
  C4, amended. With a non-empty name and a non-empty code the registration is answered 201
  with the new id, whether the code was bound or not: the durable record is stored under the
  new id and the code is bound to it, an earlier binding of the code being replaced; the
  other records and the other codes are as before.
\<close>

theorem post_register_binds_code:
  assumes "d_name body = Some name" and "name \<noteq> []"
    and "d_connectionCode body = Some code" and "code \<noteq> []"
  shows "res_status (fst (snd (post_register body now computerId st))) = 201
     \<and> res_id (fst (snd (post_register body now computerId st))) = Some computerId
     \<and> map_of (connectionCodes (fst (post_register body now computerId st))) =
         (map_of (connectionCodes st))(code \<mapsto> computerId)
     \<and> map_of (registeredComputers (fst (post_register body now computerId st))) =
         (map_of (registeredComputers st))(computerId \<mapsto>
            \<lparr>r_id = computerId, r_name = name, r_status = Offline, r_lastSeen = now,
             r_connectionCode = code\<rparr>)"
  using assms by (simp add: post_register_def AList.update_conv')

theorem post_register_binds_code_witness:
  "d_name (lab_pc\<lparr>d_name := Some ''Other-PC''\<rparr>) = Some ''Other-PC''
   \<and> d_connectionCode (lab_pc\<lparr>d_name := Some ''Other-PC''\<rparr>) = Some ''ABC123''
   \<and> map_of (connectionCodes st_durable) ''ABC123'' = Some ''reg_1000_k3x9q2a''
   \<and> res_status (fst (snd (post_register (lab_pc\<lparr>d_name := Some ''Other-PC''\<rparr>) 5000
                              ''reg_5000_p0o9i8u'' st_durable))) = 201
   \<and> res_id (fst (snd (post_register (lab_pc\<lparr>d_name := Some ''Other-PC''\<rparr>) 5000
                          ''reg_5000_p0o9i8u'' st_durable))) = Some ''reg_5000_p0o9i8u''
   \<and> map_of (connectionCodes (fst (post_register (lab_pc\<lparr>d_name := Some ''Other-PC''\<rparr>) 5000
                                     ''reg_5000_p0o9i8u'' st_durable))) ''ABC123'' =
       Some ''reg_5000_p0o9i8u''"
proof -
  have n: "d_name (lab_pc\<lparr>d_name := Some ''Other-PC''\<rparr>) = Some ''Other-PC''"
    and c: "d_connectionCode (lab_pc\<lparr>d_name := Some ''Other-PC''\<rparr>) = Some ''ABC123''"
    by (simp_all add: lab_pc_def no_fields_def)
  show ?thesis
    using n c post_register_binds_code [OF n _ c, of 5000 "''reg_5000_p0o9i8u''" st_durable]
    by (simp add: st_durable_value)
qed

text \<open>
  C5. No listener is registered for \<open>heartbeat\<close>: the event changes nothing, and the sweep
  at 62001 evicts the source registered at 2000 although its heartbeat came at 60000.
\<close>

theorem heartbeat_does_not_refresh:
  "on_event sock_S 60000 ''heartbeat'' (Some heartbeat) (Some info_S, st_live) =
     Inr ((Some info_S, st_live), [])
   \<and> connectedComputers (fst (sweep 62001 st_live)) = []"
  by (simp add: on_event_def sweep_def st_live_value info_S_value mark_offline_def)

text \<open>
  C6, as stated, fails: the viewer \<open>sock-V\<close> stops the stream of \<open>sock-S\<close>, which changes
  nothing in the server; the next frame of \<open>sock-S\<close> for \<open>sock-V\<close> reaches \<open>sock-V\<close>.
\<close>

theorem frame_after_stop_is_delivered:
  "on_event sock_V 3000 ''stop-stream'' (Some (no_fields\<lparr>d_computerId := Some ''sock-S''\<rparr>))
     (None, st_live) =
     Inr ((None, st_live), [(ToRoom (Some ''sock-S''), ''stop-stream'', ViewerId ''sock-V'')])
   \<and> inbox [''sock-S'', ''sock-V''] ''sock-V''
        (emitted (on_event sock_S 4000 ''webcam-frame'' (Some frame_1) (Some info_S, st_live))) =
       [(''webcam-frame'', FrameData (Some ''/9j/4AAQ'') ''sock-S'' (Some 4000) (Some 1)),
        (''frame'', FrameData (Some ''/9j/4AAQ'') ''sock-S'' (Some 4000) (Some 1))]"
  by (simp add: on_event_def stop_stream_def truthy_def no_fields_def sock_V_def sock_S_def
      inbox_def emitted_def webcam_frame_def frame_1_def case_prod_unfold)

text \<open>
  C6, amended. \<open>stop-stream\<close> leaves the connection and the server as they were and sends
  one \<open>stop-stream\<close> carrying the viewer's id to the room named by \<open>computerId\<close> (nothing
  when \<open>computerId\<close> is absent or empty). A \<open>webcam-frame\<close> that a source sends afterwards
  for that viewer is relayed as before: the connected viewer receives it under both names.
\<close>

theorem stop_stream_only_notifies_source:
  assumes "on_event viewer t ''stop-stream'' (Some stop) (vinfo, st) = Inr ((vinfo', st'), msgs)"
    and "d_viewerId f = Some (sock_id viewer)" and "sock_id viewer \<in> set sockets"
  shows "vinfo' = vinfo \<and> st' = st
     \<and> msgs = (if truthy (d_computerId stop)
               then [(ToRoom (d_computerId stop), ''stop-stream'', ViewerId (sock_id viewer))]
               else [])
     \<and> inbox sockets (sock_id viewer)
          (emitted (on_event source t' ''webcam-frame'' (Some f) (sinfo, st'))) =
         [(''webcam-frame'',
           FrameData (d_frame f) (sock_id source) (d_timestamp f) (d_frameNumber f)),
          (''frame'',
           FrameData (d_frame f) (sock_id source) (d_timestamp f) (d_frameNumber f))]"
proof -
  from assms(1) have "vinfo' = vinfo" and "st' = st" and "msgs = stop_stream viewer stop"
    by (auto simp add: on_event_def)
  moreover note relay_inbox [OF assms(2,3), of source t' "(sinfo, st')"]
  ultimately show ?thesis by (simp add: stop_stream_def)
qed

theorem stop_stream_only_notifies_source_witness:
  "on_event sock_V 3000 ''stop-stream'' (Some (no_fields\<lparr>d_computerId := Some ''sock-S''\<rparr>))
     (None, st_live) =
     Inr ((None, st_live), [(ToRoom (Some ''sock-S''), ''stop-stream'', ViewerId ''sock-V'')])
   \<and> d_viewerId frame_1 = Some (sock_id sock_V)
   \<and> sock_id sock_V \<in> set [''sock-S'', ''sock-V'']
   \<and> inbox [''sock-S'', ''sock-V''] (sock_id sock_V)
        (emitted (on_event sock_S 4000 ''webcam-frame'' (Some frame_1) (Some info_S, st_live))) =
       [(''webcam-frame'', FrameData (Some ''/9j/4AAQ'') ''sock-S'' (Some 4000) (Some 1)),
        (''frame'', FrameData (Some ''/9j/4AAQ'') ''sock-S'' (Some 4000) (Some 1))]"
proof -
  have stop: "on_event sock_V 3000 ''stop-stream''
      (Some (no_fields\<lparr>d_computerId := Some ''sock-S''\<rparr>)) (None, st_live) =
      Inr ((None, st_live), [(ToRoom (Some ''sock-S''), ''stop-stream'', ViewerId ''sock-V'')])"
    by (simp add: on_event_def stop_stream_def truthy_def no_fields_def sock_V_def)
  have addr: "d_viewerId frame_1 = Some (sock_id sock_V)"
    by (simp add: frame_1_def no_fields_def sock_V_def)
  have conn: "sock_id sock_V \<in> set [''sock-S'', ''sock-V'']"
    by (simp add: sock_V_def)
  show ?thesis
    using stop addr conn
      stop_stream_only_notifies_source [OF stop addr conn, of sock_S 4000 "Some info_S"]
    by (simp add: frame_1_def no_fields_def sock_S_def)
qed

text \<open>
  C7, as stated, fails: at time 100000 \<open>sock-S\<close> and \<open>sock-T\<close> are stale, \<open>sock-U\<close> is
  not; the sweep sends \<open>computers-updated\<close> twice. A sweep that evicts nobody sends none.
\<close>

theorem sweep_signals_per_eviction:
  "snd (sweep 100000 st_crowd) =
     [(Everyone, ''computers-updated'', NoArgs), (Everyone, ''computers-updated'', NoArgs)]
   \<and> snd (sweep 100000 empty_server) = []"
  by (simp add: sweep_def st_crowd_value info_S_value mark_offline_def empty_server_def)

text \<open>
  C7, amended. A sweep at time \<open>now\<close> keeps exactly the live records with
  \<open>now - lastSeen \<le> 60000\<close>, in their order; it sets the durable record of every evicted
  identity to offline with \<open>lastSeen = now\<close> and leaves the other durable records and
  the codes as they were; it sends one \<open>computers-updated\<close> to everyone for each evicted
  record. The keys of a \<open>Map\<close> are distinct.
\<close>

theorem sweep_evicts_stale:
  assumes "distinct (map fst (connectedComputers st))"
    and "distinct (map fst (registeredComputers st))"
  shows "connectedComputers (fst (sweep now st)) =
           filter (\<lambda>(key, computer). \<not> now - ci_lastSeen computer > 60000)
             (connectedComputers st)
     \<and> registeredComputers (fst (sweep now st)) =
           map (\<lambda>(key, r).
                  if key \<in> ci_id ` snd `
                       set (filter (\<lambda>(key, computer). now - ci_lastSeen computer > 60000)
                              (connectedComputers st))
                  then (key, r\<lparr>r_status := Offline, r_lastSeen := now\<rparr>) else (key, r))
             (registeredComputers st)
     \<and> connectionCodes (fst (sweep now st)) = connectionCodes st
     \<and> snd (sweep now st) =
           replicate
             (length (filter (\<lambda>(key, computer). now - ci_lastSeen computer > 60000)
                        (connectedComputers st)))
             (Everyone, ''computers-updated'', NoArgs)"
proof -
  have "connectedComputers (fst (sweep now st)) =
          filter (\<lambda>(k, c). \<not> stale now c) (connectedComputers st)"
    unfolding sweep_def reap_connected by (rule stale_keys_filter [OF assms(1)])
  moreover have "registeredComputers (fst (sweep now st)) =
          map (\<lambda>(k, r). if k \<in> ci_id ` snd `
                              set (filter (\<lambda>(k, c). stale now c) (connectedComputers st))
                         then (k, offline_at now r) else (k, r))
            (registeredComputers st)"
    unfolding sweep_def by (rule reap_registered [OF assms(2)])
  moreover have "connectionCodes (fst (sweep now st)) = connectionCodes st"
    unfolding sweep_def by (rule reap_codes)
  moreover have "snd (sweep now st) =
          replicate (length (filter (\<lambda>(k, c). stale now c) (connectedComputers st)))
            (Everyone, ''computers-updated'', NoArgs)"
    unfolding sweep_def by (rule reap_messages)
  ultimately show ?thesis
    unfolding stale_def offline_at_def by simp
qed

theorem sweep_evicts_stale_witness:
  "distinct (map fst (connectedComputers st_crowd))
   \<and> distinct (map fst (registeredComputers st_crowd))
   \<and> map fst (connectedComputers (fst (sweep 100000 st_crowd))) = [''sock-U'']
   \<and> map (\<lambda>(key, r). r_status r) (registeredComputers (fst (sweep 100000 st_crowd))) = [Offline]
   \<and> length (snd (sweep 100000 st_crowd)) = 2"
proof -
  have d1: "distinct (map fst (connectedComputers st_crowd))"
    by (simp add: st_crowd_value)
  have d2: "distinct (map fst (registeredComputers st_crowd))"
    by (simp add: st_crowd_value)
  show ?thesis
    using d1 d2 sweep_evicts_stale [OF d1 d2, of 100000]
    by (simp add: st_crowd_value info_S_value)
qed

text \<open>
  C8, as stated, fails: the server keeps no relay sessions. In the empty server nobody has
  asked for a stream, and a \<open>webcam-frame\<close> of \<open>sock-S\<close> addressed to the connected
  socket \<open>sock-V\<close> reaches \<open>sock-V\<close>.
\<close>

theorem frame_without_session_is_delivered:
  "inbox [''sock-S'', ''sock-V''] ''sock-V''
     (emitted (on_event sock_S 4000 ''webcam-frame'' (Some frame_1) (None, empty_server))) =
     [(''webcam-frame'', FrameData (Some ''/9j/4AAQ'') ''sock-S'' (Some 4000) (Some 1)),
      (''frame'', FrameData (Some ''/9j/4AAQ'') ''sock-S'' (Some 4000) (Some 1))]"
  by (simp add: on_event_def no_fields_def sock_S_def inbox_def emitted_def webcam_frame_def
      frame_1_def case_prod_unfold)

text \<open>
  C8, amended. A \<open>webcam-frame\<close> whose \<open>viewerId\<close> is absent or is not the id of a
  connected socket is handled without an exception, and no socket receives anything of it.
\<close>

theorem frame_to_unknown_viewer_reaches_nobody:
  assumes "d_viewerId d \<notin> Some ` set sockets"
  shows "on_event sock now ''webcam-frame'' (Some d) s \<noteq> Inl TypeError
     \<and> inbox sockets w (emitted (on_event sock now ''webcam-frame'' (Some d) s)) = []"
  using relay_inbox_unknown [OF assms] webcam_frame_returns by simp

theorem frame_to_unknown_viewer_reaches_nobody_witness:
  "d_viewerId (frame_1\<lparr>d_viewerId := Some ''sock-gone''\<rparr>) \<notin> Some ` set [''sock-S'', ''sock-V'']
   \<and> on_event sock_S 4000 ''webcam-frame'' (Some (frame_1\<lparr>d_viewerId := Some ''sock-gone''\<rparr>))
        (Some info_S, st_live) \<noteq> Inl TypeError
   \<and> inbox [''sock-S'', ''sock-V''] ''sock-V''
        (emitted (on_event sock_S 4000 ''webcam-frame''
           (Some (frame_1\<lparr>d_viewerId := Some ''sock-gone''\<rparr>)) (Some info_S, st_live))) = []"
proof -
  have h: "d_viewerId (frame_1\<lparr>d_viewerId := Some ''sock-gone''\<rparr>)
             \<notin> Some ` set [''sock-S'', ''sock-V'']"
    by simp
  show ?thesis
    using h frame_to_unknown_viewer_reaches_nobody [OF h, of sock_S 4000 "(Some info_S, st_live)"
        "''sock-V''"]
    by simp
qed

text \<open>
  C9. A registration with a non-empty name and a non-empty code is answered 201 with the new
  id, and \<open>pair-computer\<close> with that code, on the state the registration leaves, answers
  \<open>computer-paired\<close> with the same id. This holds for every state, so also when the code
  was not bound before.
\<close>

theorem register_then_pair:
  assumes "d_name body = Some name" and "name \<noteq> []"
    and "d_connectionCode body = Some code" and "code \<noteq> []"
  shows "fst (snd (post_register body now computerId st)) =
           \<lparr>res_status = 201, res_message = ''Computer registered successfully'',
            res_id = Some computerId\<rparr>
     \<and> on_event sock t ''pair-computer'' (Some (no_fields\<lparr>d_connectionCode := Some code\<rparr>))
          (info, fst (post_register body now computerId st)) =
         Inr ((info, fst (post_register body now computerId st)),
              [(ToSocket (sock_id sock), ''computer-paired'', ComputerId computerId)])"
  using assms
  by (simp add: post_register_def on_event_def pair_computer_def no_fields_def
      AList.update_conv')

theorem register_then_pair_witness:
  "d_name lab_pc = Some ''Lab-PC'' \<and> d_connectionCode lab_pc = Some ''ABC123''
   \<and> map_of (connectionCodes empty_server) ''ABC123'' = None
   \<and> res_id (fst (snd (post_register lab_pc 1000 ''reg_1000_k3x9q2a'' empty_server))) =
       Some ''reg_1000_k3x9q2a''
   \<and> emitted (on_event sock_V 2500 ''pair-computer''
                (Some (no_fields\<lparr>d_connectionCode := Some ''ABC123''\<rparr>))
                (None, fst (post_register lab_pc 1000 ''reg_1000_k3x9q2a'' empty_server))) =
       [(ToSocket ''sock-V'', ''computer-paired'', ComputerId ''reg_1000_k3x9q2a'')]"
proof -
  have n: "d_name lab_pc = Some ''Lab-PC''" and c: "d_connectionCode lab_pc = Some ''ABC123''"
    by (simp_all add: lab_pc_def no_fields_def)
  show ?thesis
    using n c
      register_then_pair [OF n _ c, of 1000 "''reg_1000_k3x9q2a''" empty_server sock_V 2500 None]
    by (simp add: emitted_def empty_server_def sock_V_def)
qed

text \<open>
  C10. A \<open>webcam-frame\<close> event makes the server send two messages to the room of
  \<open>viewerId\<close>, \<open>webcam-frame\<close> and then \<open>frame\<close>, with the same payload: the frame, the
  timestamp and the frame number of the event, and the id of the sending socket as
  \<open>computerId\<close>. A connected viewer addressed by its socket id receives exactly these two.
\<close>

theorem webcam_frame_relayed_twice:
  assumes "d_viewerId d = Some v" and "v \<in> set sockets"
  shows "emitted (on_event sock now ''webcam-frame'' (Some d) s) =
           [(ToRoom (Some v), ''webcam-frame'',
             FrameData (d_frame d) (sock_id sock) (d_timestamp d) (d_frameNumber d)),
            (ToRoom (Some v), ''frame'',
             FrameData (d_frame d) (sock_id sock) (d_timestamp d) (d_frameNumber d))]
     \<and> inbox sockets v (emitted (on_event sock now ''webcam-frame'' (Some d) s)) =
           [(''webcam-frame'',
             FrameData (d_frame d) (sock_id sock) (d_timestamp d) (d_frameNumber d)),
            (''frame'',
             FrameData (d_frame d) (sock_id sock) (d_timestamp d) (d_frameNumber d))]"
  using assms relay_inbox [OF assms] by (simp add: webcam_frame_emitted)

theorem webcam_frame_relayed_twice_witness:
  "d_viewerId frame_1 = Some ''sock-V'' \<and> ''sock-V'' \<in> set [''sock-S'', ''sock-V'']
   \<and> ci_id info_S = ''reg_1000_k3x9q2a''
   \<and> inbox [''sock-S'', ''sock-V''] ''sock-V''
        (emitted (on_event sock_S 4000 ''webcam-frame'' (Some frame_1) (Some info_S, st_live))) =
       [(''webcam-frame'', FrameData (Some ''/9j/4AAQ'') ''sock-S'' (Some 4000) (Some 1)),
        (''frame'', FrameData (Some ''/9j/4AAQ'') ''sock-S'' (Some 4000) (Some 1))]"
proof -
  have a: "d_viewerId frame_1 = Some ''sock-V''"
    by (simp add: frame_1_def no_fields_def)
  have b: "''sock-V'' \<in> set [''sock-S'', ''sock-V'']"
    by simp
  show ?thesis
    using a b webcam_frame_relayed_twice [OF a b, of sock_S 4000 "(Some info_S, st_live)"]
    by (simp add: frame_1_def no_fields_def sock_S_def info_S_value inbox_def)
qed

end
